theory Spec2Isabelle
  imports Complex_Main
begin

section \<open>HeishaMon entity definitions: values, decoders and descriptor tables\<close>

text \<open>
  This theory embeds \<^verbatim>\<open>custom_components/aquarea/definitions.py\<close>: the value-transform
  functions applied to MQTT payloads and the five descriptor tables
  (\<^verbatim>\<open>NUMBERS\<close>, \<^verbatim>\<open>SELECTS\<close>, \<^verbatim>\<open>MQTT_SWITCHES\<close>, \<^verbatim>\<open>BINARY_SENSORS\<close>, \<^verbatim>\<open>SENSORS\<close>).

  Conventions of the embedding.
  \<^item> A Python \<^verbatim>\<open>str\<close> is a \<^typ>\<open>string\<close>: a list of characters with code points 0 to 255.
  \<^item> A function that can raise returns \<open>error + 'a\<close>, with \<open>Inl\<close> for the exception.
  \<^item> \<^verbatim>\<open>Optional[T]\<close> is \<open>T option\<close>, with \<open>None\<close> for Python's \<^verbatim>\<open>None\<close>.
  \<^item> A Python \<^verbatim>\<open>float\<close> is a double. A finite one is written as the real number it denotes;
    the conversion of an integer and the division round to the nearest double.
\<close>

subsection \<open>Python values and exceptions\<close>

datatype error = ValueError | TypeError | AttributeError | OverflowError | JSONDecodeError

datatype pyfloat = Finite real | PosInf | NegInf | NaN

datatype pyval =
    PNone
  | PBool bool
  | PInt int
  | PFloat pyfloat
  | PStr string
  | PList "pyval list"
  | PDict "(string \<times> pyval) list"

text \<open>Truth value testing, as \<^verbatim>\<open>if value:\<close> performs it.\<close>

fun float_truthy :: "pyfloat \<Rightarrow> bool" where
  "float_truthy (Finite x) = (x \<noteq> 0)"
| "float_truthy PosInf = True"
| "float_truthy NegInf = True"
| "float_truthy NaN = True"

fun truthy :: "pyval \<Rightarrow> bool" where
  "truthy PNone = False"
| "truthy (PBool b) = b"
| "truthy (PInt n) = (n \<noteq> 0)"
| "truthy (PFloat x) = float_truthy x"
| "truthy (PStr s) = (s \<noteq> [])"
| "truthy (PList xs) = (xs \<noteq> [])"
| "truthy (PDict kvs) = (kvs \<noteq> [])"

subsection \<open>Rounding to a double\<close>

text \<open>
  Round to nearest, ties to even, with 53 significant bits. The exponent of a number is
  the integer \<open>e\<close> with \<open>2 ^ e \<le> \<bar>x\<bar> < 2 ^ (e + 1)\<close>, held at \<open>- 1022\<close> from below, where
  the subnormal numbers begin; neighbouring doubles are \<open>2 ^ (e - 52)\<close> apart. A number
  that rounds to \<open>2 ^ 1024\<close> or beyond is an infinity. The two zeros are not told apart.
\<close>

definition round_half_even :: "real \<Rightarrow> int" where
  "round_half_even q =
     (let f = \<lfloor>q\<rfloor>; d = q - of_int f
      in if d < 1 / 2 then f else if 1 / 2 < d then f + 1 else if even f then f else f + 1)"

definition round_double :: "real \<Rightarrow> pyfloat" where
  "round_double x =
     (if x = 0 then Finite 0
      else let e = max \<lfloor>log 2 \<bar>x\<bar>\<rfloor> (- 1022);
               ulp = 2 powi (e - 52);
               y = of_int (round_half_even (x / ulp)) * ulp
           in if 2 ^ 1024 \<le> \<bar>y\<bar> then (if 0 < x then PosInf else NegInf) else Finite y)"

subsection \<open>The builtin \<^verbatim>\<open>int\<close> on strings\<close>

text \<open>
  \<^verbatim>\<open>int(s)\<close> for a string: surrounding whitespace is dropped, one sign is allowed, and the
  rest is a non-empty run of decimal digits in which single underscores may separate two
  digits. Anything else raises \<^verbatim>\<open>ValueError\<close>, and so does a literal of more than 4300
  digits (CPython's default limit for integer string conversion).
\<close>

definition whitespace :: "char list" where
  "whitespace = [CHR 0x09, CHR 0x0A, CHR 0x0B, CHR 0x0C, CHR 0x0D, CHR '' '', CHR 0x85, CHR 0xA0]"

definition strip :: "string \<Rightarrow> string" where
  "strip s = rev (dropWhile (\<lambda>c. c \<in> set whitespace) (rev (dropWhile (\<lambda>c. c \<in> set whitespace) s)))"

definition digit_of :: "char \<Rightarrow> nat option" where
  "digit_of = map_of [(CHR ''0'', 0), (CHR ''1'', 1), (CHR ''2'', 2), (CHR ''3'', 3), (CHR ''4'', 4),
                      (CHR ''5'', 5), (CHR ''6'', 6), (CHR ''7'', 7), (CHR ''8'', 8), (CHR ''9'', 9)]"

fun digit_run :: "string \<Rightarrow> nat list option" where
  "digit_run [] = None"
| "digit_run [c] = (case digit_of c of None \<Rightarrow> None | Some d \<Rightarrow> Some [d])"
| "digit_run (c # u # cs) =
     (case digit_of c of
        None \<Rightarrow> None
      | Some d \<Rightarrow> map_option ((#) d) (if u = CHR ''_'' then digit_run cs else digit_run (u # cs)))"

definition max_str_digits :: nat where
  "max_str_digits = 4300"

definition decimal :: "nat list \<Rightarrow> nat" where
  "decimal ds = foldl (\<lambda>a d. 10 * a + d) 0 ds"

definition py_int :: "string \<Rightarrow> error + int" where
  "py_int s =
     (let t = strip s;
          neg = (t \<noteq> [] \<and> hd t = CHR ''-'');
          body = (if t \<noteq> [] \<and> (hd t = CHR ''-'' \<or> hd t = CHR ''+'') then tl t else t)
      in case digit_run body of
           None \<Rightarrow> Inl ValueError
         | Some ds \<Rightarrow>
             if max_str_digits < length ds then Inl ValueError
             else Inr (if neg then - int (decimal ds) else int (decimal ds)))"

subsection \<open>Operating mode\<close>

text \<open>
  The dictionary \<^verbatim>\<open>OPERATING_MODE_TO_STRING\<close> keeps its five entries in insertion order;
  the codes 1, 5, 7 and 8 are commented out in the source.
\<close>

definition OPERATING_MODE_TO_STRING :: "(string \<times> string) list" where
  "OPERATING_MODE_TO_STRING =
     [(''0'', ''Heat only''),
      (''2'', ''Auto(Heat)''),
      (''3'', ''DHW only''),
      (''4'', ''Heat+DWH''),
      (''6'', ''Auto(Heat)+DHW'')]"

definition operating_mode_to_state :: "string \<Rightarrow> string option" where
  "operating_mode_to_state v =
     (let options = map fst (filter (\<lambda>(mode, string). string = v) OPERATING_MODE_TO_STRING)
      in if length options = 0 then None else Some (hd options))"

definition read_operating_mode_state :: "string \<Rightarrow> string" where
  "read_operating_mode_state v =
     (case map_of OPERATING_MODE_TO_STRING v of
        Some s \<Rightarrow> s
      | None \<Rightarrow> ''Unknown operating mode value: '' @ v)"

subsection \<open>Simple decoders and the quiet-mode encoder\<close>

definition read_power_mode_time :: "string \<Rightarrow> error + int" where
  "read_power_mode_time v = (case py_int v of Inl e \<Rightarrow> Inl e | Inr n \<Rightarrow> Inr (n * 30))"

definition read_threeway_valve :: "string \<Rightarrow> string option" where
  "read_threeway_valve v =
     (if v = ''0'' then Some ''Room''
      else if v = ''1'' then Some ''Tank''
      else None)"

definition bit_to_bool :: "string \<Rightarrow> bool option" where
  "bit_to_bool v =
     (if v = ''1'' then Some True
      else if v = ''0'' then Some False
      else None)"

definition read_quiet_mode :: "string \<Rightarrow> string" where
  "read_quiet_mode v =
     (if v = ''4'' then ''Scheduled''
      else if v = ''0'' then ''Off''
      else v)"

definition write_quiet_mode :: "string \<Rightarrow> error + int" where
  "write_quiet_mode selected_value =
     (if selected_value = ''Off'' then Inr 0
      else if selected_value = ''Scheduled'' then Inr 4
      else py_int selected_value)"

subsection \<open>What the module imports\<close>

text \<open>
  Three things the module uses are defined outside of it: \<^verbatim>\<open>json.loads\<close> of the standard
  library, the builtin \<^verbatim>\<open>float\<close> applied to a string, and the table \<^verbatim>\<open>HEATPUMP_MODELS\<close> of
  the sibling module \<^verbatim>\<open>models\<close>. They are parameters of the embedding, collected in one
  record. \<^verbatim>\<open>json.loads\<close> returns the decoded document or raises; a decoded JSON object is
  a \<open>PDict\<close> with one entry per key.
\<close>

record environment =
  json_loads :: "string \<Rightarrow> error + pyval"
  float_of_str :: "string \<Rightarrow> error + pyfloat"
  HEATPUMP_MODELS :: "string \<Rightarrow> string option"

definition read_heatpump_model :: "environment \<Rightarrow> string \<Rightarrow> string" where
  "read_heatpump_model env v =
     (case HEATPUMP_MODELS env v of
        Some m \<Rightarrow> m
      | None \<Rightarrow> ''Unknown model for HeishaMon'')"

subsection \<open>Statistics document\<close>

text \<open>
  \<^verbatim>\<open>obj.get(field_name, None)\<close> exists on a dictionary only: on any other decoded document
  the attribute lookup raises \<^verbatim>\<open>AttributeError\<close>.
\<close>

fun dict_get :: "pyval \<Rightarrow> string \<Rightarrow> error + pyval" where
  "dict_get (PDict kvs) k = Inr (case map_of kvs k of None \<Rightarrow> PNone | Some v \<Rightarrow> v)"
| "dict_get PNone k = Inl AttributeError"
| "dict_get (PBool b) k = Inl AttributeError"
| "dict_get (PInt n) k = Inl AttributeError"
| "dict_get (PFloat x) k = Inl AttributeError"
| "dict_get (PStr s) k = Inl AttributeError"
| "dict_get (PList xs) k = Inl AttributeError"

text \<open>
  \<^verbatim>\<open>float(n)\<close> of an integer is the double nearest to \<open>n\<close>, and raises \<^verbatim>\<open>OverflowError\<close>
  when \<open>n\<close> rounds to \<open>2 ^ 1024\<close> or beyond.
\<close>

fun py_float :: "environment \<Rightarrow> pyval \<Rightarrow> error + pyfloat" where
  "py_float env PNone = Inl TypeError"
| "py_float env (PBool b) = Inr (Finite (if b then 1 else 0))"
| "py_float env (PInt n) =
     (case round_double (real_of_int n) of
        Finite y \<Rightarrow> Inr (Finite y)
      | PosInf \<Rightarrow> Inl OverflowError
      | NegInf \<Rightarrow> Inl OverflowError
      | NaN \<Rightarrow> Inl OverflowError)"
| "py_float env (PFloat x) = Inr x"
| "py_float env (PStr s) = float_of_str env s"
| "py_float env (PList xs) = Inl TypeError"
| "py_float env (PDict kvs) = Inl TypeError"

definition read_stats_json :: "environment \<Rightarrow> string \<Rightarrow> string \<Rightarrow> error + pyfloat option" where
  "read_stats_json env field_name json_doc =
     (case json_loads env json_doc of
        Inl e \<Rightarrow> Inl e
      | Inr obj \<Rightarrow>
          (case dict_get obj field_name of
             Inl e \<Rightarrow> Inl e
           | Inr field_value \<Rightarrow>
               if truthy field_value
               then (case py_float env field_value of Inl e \<Rightarrow> Inl e | Inr x \<Rightarrow> Inr (Some x))
               else Inr None))"

text \<open>
  Division of a float by a positive finite number: the quotient of two finite numbers is
  rounded to the nearest double.
\<close>

fun float_div :: "pyfloat \<Rightarrow> real \<Rightarrow> pyfloat" where
  "float_div (Finite x) d = round_double (x / d)"
| "float_div PosInf d = PosInf"
| "float_div NegInf d = NegInf"
| "float_div NaN d = NaN"

definition ms_to_secs :: "pyfloat option \<Rightarrow> pyfloat option" where
  "ms_to_secs v =
     (case v of
        None \<Rightarrow> None
      | Some x \<Rightarrow> if float_truthy x then Some (float_div x 1000) else None)"

subsection \<open>Descriptors\<close>

text \<open>
  The \<^verbatim>\<open>state\<close>, \<^verbatim>\<open>state_to_mqtt\<close> and \<^verbatim>\<open>on_receive\<close> fields hold references to functions. A
  reference is a constructor of \<open>callable\<close>, and \<open>call\<close> applies a reference to a payload.
  \<open>Partial_read_stats_json f\<close> stands for \<^verbatim>\<open>partial(read_stats_json, f)\<close> and \<open>Lambda_uptime\<close>
  for \<^verbatim>\<open>lambda json_doc: ms_to_secs(read_stats_json("uptime", json_doc))\<close>.
\<close>

datatype DeviceType = HEATPUMP | HEISHAMON

datatype callable =
    Ref_bit_to_bool
  | Ref_read_quiet_mode
  | Ref_write_quiet_mode
  | Ref_read_operating_mode_state
  | Ref_operating_mode_to_state
  | Ref_read_power_mode_time
  | Ref_read_threeway_valve
  | Ref_read_heatpump_model
  | Builtin_int
  | Partial_read_stats_json string
  | Lambda_uptime

datatype hook = Ref_update_device_model

definition optional :: "('a \<Rightarrow> pyval) \<Rightarrow> 'a option \<Rightarrow> pyval" where
  "optional wrap x = (case x of None \<Rightarrow> PNone | Some a \<Rightarrow> wrap a)"

fun call :: "environment \<Rightarrow> callable \<Rightarrow> string \<Rightarrow> error + pyval" where
  "call env Ref_bit_to_bool p = Inr (optional PBool (bit_to_bool p))"
| "call env Ref_read_quiet_mode p = Inr (PStr (read_quiet_mode p))"
| "call env Ref_write_quiet_mode p = map_sum id PInt (write_quiet_mode p)"
| "call env Ref_read_operating_mode_state p = Inr (PStr (read_operating_mode_state p))"
| "call env Ref_operating_mode_to_state p = Inr (optional PStr (operating_mode_to_state p))"
| "call env Ref_read_power_mode_time p = map_sum id PInt (read_power_mode_time p)"
| "call env Ref_read_threeway_valve p = Inr (optional PStr (read_threeway_valve p))"
| "call env Ref_read_heatpump_model p = Inr (PStr (read_heatpump_model env p))"
| "call env Builtin_int p = map_sum id PInt (py_int p)"
| "call env (Partial_read_stats_json f) p = map_sum id (optional PFloat) (read_stats_json env f p)"
| "call env Lambda_uptime p =
     map_sum id (\<lambda>v. optional PFloat (ms_to_secs v)) (read_stats_json env ''uptime'' p)"

text \<open>
  The descriptor classes. Of the fields inherited from the host's entity descriptions only
  \<^verbatim>\<open>key\<close> is kept, with the option list of a select and the bounds of a number; display
  names, units, device classes and categories play no part below. The fields that the
  switch, select and number classes declare in common are factored into two intermediate
  records. Every class is given with its constructor, which takes the key and fills in the
  defaults of the dataclass; the option list and the bounds have no default.
\<close>

record HeishaMonEntityDescription =
  key :: string
  heishamon_topic_id :: "string option"
  state :: "callable option"
  device :: DeviceType

record HeishaMonSensorEntityDescription = HeishaMonEntityDescription +
  on_receive :: "hook option"

type_synonym HeishaMonBinarySensorEntityDescription = HeishaMonEntityDescription

record HeishaMonCommandEntityDescription = HeishaMonEntityDescription +
  command_topic :: string
  qos :: int
  retain :: bool
  encoding :: string

record HeishaMonSwitchEntityDescription = HeishaMonCommandEntityDescription +
  payload_on :: string
  payload_off :: string

record HeishaMonWritableEntityDescription = HeishaMonCommandEntityDescription +
  state_to_mqtt :: "callable option"

record HeishaMonSelectEntityDescription = HeishaMonWritableEntityDescription +
  options :: "string list option"

record HeishaMonNumberEntityDescription = HeishaMonWritableEntityDescription +
  native_min_value :: "int option"
  native_max_value :: "int option"

definition HeishaMonSensorEntityDescription :: "string \<Rightarrow> HeishaMonSensorEntityDescription" where
  "HeishaMonSensorEntityDescription k =
     \<lparr>key = k, heishamon_topic_id = None, state = None, device = HEATPUMP, on_receive = None\<rparr>"

definition HeishaMonBinarySensorEntityDescription :: "string \<Rightarrow> HeishaMonBinarySensorEntityDescription" where
  "HeishaMonBinarySensorEntityDescription k =
     \<lparr>key = k, heishamon_topic_id = None, state = None, device = HEATPUMP\<rparr>"

definition HeishaMonSwitchEntityDescription :: "string \<Rightarrow> HeishaMonSwitchEntityDescription" where
  "HeishaMonSwitchEntityDescription k =
     \<lparr>key = k, heishamon_topic_id = None, state = None, device = HEATPUMP,
      command_topic = ''void/topic'', qos = 0, retain = False, encoding = ''utf-8'',
      payload_on = ''1'', payload_off = ''0''\<rparr>"

definition HeishaMonSelectEntityDescription :: "string \<Rightarrow> HeishaMonSelectEntityDescription" where
  "HeishaMonSelectEntityDescription k =
     \<lparr>key = k, heishamon_topic_id = None, state = None, device = HEATPUMP,
      command_topic = ''void/topic'', qos = 0, retain = False, encoding = ''utf-8'',
      state_to_mqtt = None, options = None\<rparr>"

definition HeishaMonNumberEntityDescription :: "string \<Rightarrow> HeishaMonNumberEntityDescription" where
  "HeishaMonNumberEntityDescription k =
     \<lparr>key = k, heishamon_topic_id = None, state = None, device = HEATPUMP,
      command_topic = ''void/topic'', qos = 0, retain = False, encoding = ''utf-8'',
      state_to_mqtt = None, native_min_value = None, native_max_value = None\<rparr>"

subsection \<open>The five tables\<close>

definition NUMBERS :: "HeishaMonNumberEntityDescription list" where
  "NUMBERS = [
    (HeishaMonNumberEntityDescription ''panasonic_heat_pump/main/DHW_Target_Temp'')
      \<lparr>heishamon_topic_id := Some ''SET11'',
       command_topic := ''panasonic_heat_pump/commands/SetDHWTemp'',
       state := Some Builtin_int,
       state_to_mqtt := Some Builtin_int,
       native_min_value := Some 48,
       native_max_value := Some 60\<rparr>]"

definition SELECTS :: "HeishaMonSelectEntityDescription list" where
  "SELECTS = [
    (HeishaMonSelectEntityDescription ''panasonic_heat_pump/main/Quiet_Mode_Level'')
      \<lparr>heishamon_topic_id := Some ''SET3'',
       command_topic := ''panasonic_heat_pump/commands/SetQuietMode'',
       state := Some Ref_read_quiet_mode,
       state_to_mqtt := Some Ref_write_quiet_mode,
       options := Some [''Off'', ''1'', ''2'', ''3'', ''Scheduled'']\<rparr>,
    (HeishaMonSelectEntityDescription ''panasonic_heat_pump/main/Operating_Mode_State'')
      \<lparr>heishamon_topic_id := Some ''SET9'',
       command_topic := ''panasonic_heat_pump/commands/SetOperationMode'',
       state := Some Ref_read_operating_mode_state,
       state_to_mqtt := Some Ref_operating_mode_to_state,
       options := Some (map snd OPERATING_MODE_TO_STRING)\<rparr>]"

definition MQTT_SWITCHES :: "HeishaMonSwitchEntityDescription list" where
  "MQTT_SWITCHES = [
    (HeishaMonSwitchEntityDescription ''panasonic_heat_pump/main/Holiday_Mode_State'')
      \<lparr>heishamon_topic_id := Some ''TOP19'',
       command_topic := ''panasonic_heat_pump/main/Holiday_Mode_State'',
       state := Some Ref_bit_to_bool\<rparr>,
    (HeishaMonSwitchEntityDescription ''panasonic_heat_pump/main/Heatpump_State'')
      \<lparr>heishamon_topic_id := Some ''TOP0'',
       command_topic := ''panasonic_heat_pump/commands/SetHeatpump'',
       state := Some Ref_bit_to_bool\<rparr>,
    (HeishaMonSwitchEntityDescription ''panasonic_heat_pump/main/Force_DHW_State'')
      \<lparr>heishamon_topic_id := Some ''TOP2'',
       command_topic := ''panasonic_heat_pump/commands/SetForceDHW'',
       state := Some Ref_bit_to_bool\<rparr>,
    (HeishaMonSwitchEntityDescription ''panasonic_heat_pump/main/Main_Schedule_State'')
      \<lparr>heishamon_topic_id := Some ''SET24'',
       command_topic := ''panasonic_heat_pump/commands/SetMainSchedule'',
       state := Some Ref_bit_to_bool\<rparr>]"

definition BINARY_SENSORS :: "HeishaMonBinarySensorEntityDescription list" where
  "BINARY_SENSORS = [
    (HeishaMonBinarySensorEntityDescription ''panasonic_heat_pump/main/Quiet_Mode_Schedule'')
      \<lparr>heishamon_topic_id := Some ''TOP3'',
       state := Some Ref_bit_to_bool\<rparr>,
    (HeishaMonBinarySensorEntityDescription ''panasonic_heat_pump/main/Defrosting_State'')
      \<lparr>heishamon_topic_id := Some ''TOP26'',
       state := Some Ref_bit_to_bool\<rparr>,
    (HeishaMonBinarySensorEntityDescription ''panasonic_heat_pump/main/DHW_Heater_State'')
      \<lparr>heishamon_topic_id := Some ''TOP58'',
       state := Some Ref_bit_to_bool\<rparr>,
    (HeishaMonBinarySensorEntityDescription ''panasonic_heat_pump/main/Room_Heater_State'')
      \<lparr>heishamon_topic_id := Some ''TOP59'',
       state := Some Ref_bit_to_bool\<rparr>,
    (HeishaMonBinarySensorEntityDescription ''panasonic_heat_pump/main/Internal_Heater_State'')
      \<lparr>heishamon_topic_id := Some ''TOP60'',
       state := Some Ref_bit_to_bool\<rparr>,
    (HeishaMonBinarySensorEntityDescription ''panasonic_heat_pump/main/External_Heater_State'')
      \<lparr>heishamon_topic_id := Some ''TOP61'',
       state := Some Ref_bit_to_bool\<rparr>]"

definition SENSORS :: "HeishaMonSensorEntityDescription list" where
  "SENSORS = [
    (HeishaMonSensorEntityDescription ''panasonic_heat_pump/main/Pump_Flow'')
      \<lparr>heishamon_topic_id := Some ''TOP1''\<rparr>,
    (HeishaMonSensorEntityDescription ''panasonic_heat_pump/main/Operating_Mode_State'')
      \<lparr>heishamon_topic_id := Some ''TOP4'',
       state := Some Ref_read_operating_mode_state\<rparr>,
    (HeishaMonSensorEntityDescription ''panasonic_heat_pump/main/Main_Inlet_Temp'')
      \<lparr>heishamon_topic_id := Some ''TOP5''\<rparr>,
    (HeishaMonSensorEntityDescription ''panasonic_heat_pump/main/Main_Outlet_Temp'')
      \<lparr>heishamon_topic_id := Some ''TOP6''\<rparr>,
    (HeishaMonSensorEntityDescription ''panasonic_heat_pump/main/Main_Target_Temp'')
      \<lparr>heishamon_topic_id := Some ''TOP7''\<rparr>,
    (HeishaMonSensorEntityDescription ''panasonic_heat_pump/main/Compressor_Freq'')
      \<lparr>heishamon_topic_id := Some ''TOP8''\<rparr>,
    (HeishaMonSensorEntityDescription ''panasonic_heat_pump/main/DHW_Target_Temp'')
      \<lparr>heishamon_topic_id := Some ''TOP9''\<rparr>,
    (HeishaMonSensorEntityDescription ''panasonic_heat_pump/main/DHW_Temp'')
      \<lparr>heishamon_topic_id := Some ''TOP10''\<rparr>,
    (HeishaMonSensorEntityDescription ''panasonic_heat_pump/main/Operations_Hours'')
      \<lparr>heishamon_topic_id := Some ''TOP11''\<rparr>,
    (HeishaMonSensorEntityDescription ''panasonic_heat_pump/main/Operations_Counter'')
      \<lparr>heishamon_topic_id := Some ''TOP12''\<rparr>,
    (HeishaMonSensorEntityDescription ''panasonic_heat_pump/main/Outside_Temp'')
      \<lparr>heishamon_topic_id := Some ''TOP14''\<rparr>,
    (HeishaMonSensorEntityDescription ''panasonic_heat_pump/main/Heat_Energy_Production'')
      \<lparr>heishamon_topic_id := Some ''TOP15''\<rparr>,
    (HeishaMonSensorEntityDescription ''panasonic_heat_pump/main/Heat_Energy_Consumption'')
      \<lparr>heishamon_topic_id := Some ''TOP16''\<rparr>,
    (HeishaMonSensorEntityDescription ''panasonic_heat_pump/main/Powerful_Mode_Time'')
      \<lparr>heishamon_topic_id := Some ''TOP17'',
       state := Some Ref_read_power_mode_time\<rparr>,
    (HeishaMonSensorEntityDescription ''panasonic_heat_pump/main/ThreeWay_Valve_State'')
      \<lparr>heishamon_topic_id := Some ''TOP20'',
       state := Some Ref_read_threeway_valve\<rparr>,
    (HeishaMonSensorEntityDescription ''panasonic_heat_pump/main/Outside_Pipe_Temp'')
      \<lparr>heishamon_topic_id := Some ''TOP21''\<rparr>,
    (HeishaMonSensorEntityDescription ''panasonic_heat_pump/main/DHW_Heat_Delta'')
      \<lparr>heishamon_topic_id := Some ''TOP22''\<rparr>,
    (HeishaMonSensorEntityDescription ''panasonic_heat_pump/main/Heat_Delta'')
      \<lparr>heishamon_topic_id := Some ''TOP23''\<rparr>,
    (HeishaMonSensorEntityDescription ''panasonic_heat_pump/main/Cool_Delta'')
      \<lparr>heishamon_topic_id := Some ''TOP24''\<rparr>,
    (HeishaMonSensorEntityDescription ''panasonic_heat_pump/main/DHW_Holiday_Shift_Temp'')
      \<lparr>heishamon_topic_id := Some ''TOP25''\<rparr>,
    (HeishaMonSensorEntityDescription ''panasonic_heat_pump/main/Z1_Heat_Request_Temp'')
      \<lparr>heishamon_topic_id := Some ''TOP27''\<rparr>,
    (HeishaMonSensorEntityDescription ''panasonic_heat_pump/main/Z1_Cool_Request_Temp'')
      \<lparr>heishamon_topic_id := Some ''TOP28''\<rparr>,
    (HeishaMonSensorEntityDescription ''panasonic_heat_pump/main/Z1_Heat_Curve_Target_High_Temp'')
      \<lparr>heishamon_topic_id := Some ''TOP29''\<rparr>,
    (HeishaMonSensorEntityDescription ''panasonic_heat_pump/main/Z1_Heat_Curve_Target_Low_Temp'')
      \<lparr>heishamon_topic_id := Some ''TOP30''\<rparr>,
    (HeishaMonSensorEntityDescription ''panasonic_heat_pump/main/Z1_Heat_Curve_Outside_High_Temp'')
      \<lparr>heishamon_topic_id := Some ''TOP31''\<rparr>,
    (HeishaMonSensorEntityDescription ''panasonic_heat_pump/main/Z1_Heat_Curve_Outside_Low_Temp'')
      \<lparr>heishamon_topic_id := Some ''TOP32''\<rparr>,
    (HeishaMonSensorEntityDescription ''panasonic_heat_pump/main/Room_Thermostat_Temp'')
      \<lparr>heishamon_topic_id := Some ''TOP33''\<rparr>,
    (HeishaMonSensorEntityDescription ''panasonic_heat_pump/main/Z2_Heat_Request_Temp'')
      \<lparr>heishamon_topic_id := Some ''TOP34''\<rparr>,
    (HeishaMonSensorEntityDescription ''panasonic_heat_pump/main/Z2_Cool_Request_Temp'')
      \<lparr>heishamon_topic_id := Some ''TOP35''\<rparr>,
    (HeishaMonSensorEntityDescription ''panasonic_heat_pump/main/Z1_Water_Temp'')
      \<lparr>heishamon_topic_id := Some ''TOP36''\<rparr>,
    (HeishaMonSensorEntityDescription ''panasonic_heat_pump/main/Z2_Water_Temp'')
      \<lparr>heishamon_topic_id := Some ''TOP37''\<rparr>,
    (HeishaMonSensorEntityDescription ''panasonic_heat_pump/main/Cool_Energy_Production'')
      \<lparr>heishamon_topic_id := Some ''TOP38''\<rparr>,
    (HeishaMonSensorEntityDescription ''panasonic_heat_pump/main/Cool_Energy_Consumption'')
      \<lparr>heishamon_topic_id := Some ''TOP39''\<rparr>,
    (HeishaMonSensorEntityDescription ''panasonic_heat_pump/main/DHW_Energy_Production'')
      \<lparr>heishamon_topic_id := Some ''TOP40''\<rparr>,
    (HeishaMonSensorEntityDescription ''panasonic_heat_pump/main/DHW_Energy_Consumption'')
      \<lparr>heishamon_topic_id := Some ''TOP41''\<rparr>,
    (HeishaMonSensorEntityDescription ''panasonic_heat_pump/main/Z1_Water_Target_Temp'')
      \<lparr>heishamon_topic_id := Some ''TOP42''\<rparr>,
    (HeishaMonSensorEntityDescription ''panasonic_heat_pump/main/Z2_Water_Target_Temp'')
      \<lparr>heishamon_topic_id := Some ''TOP43''\<rparr>,
    (HeishaMonSensorEntityDescription ''panasonic_heat_pump/main/Error'')
      \<lparr>heishamon_topic_id := Some ''TOP44''\<rparr>,
    (HeishaMonSensorEntityDescription ''panasonic_heat_pump/main/Room_Holiday_Shift_Temp'')
      \<lparr>heishamon_topic_id := Some ''TOP45''\<rparr>,
    (HeishaMonSensorEntityDescription ''panasonic_heat_pump/main/Buffer_Temp'')
      \<lparr>heishamon_topic_id := Some ''TOP46''\<rparr>,
    (HeishaMonSensorEntityDescription ''panasonic_heat_pump/main/Solar_Temp'')
      \<lparr>heishamon_topic_id := Some ''TOP47''\<rparr>,
    (HeishaMonSensorEntityDescription ''panasonic_heat_pump/main/Pool_Temp'')
      \<lparr>heishamon_topic_id := Some ''TOP48''\<rparr>,
    (HeishaMonSensorEntityDescription ''panasonic_heat_pump/main/Main_Hex_Outlet_Temp'')
      \<lparr>heishamon_topic_id := Some ''TOP49''\<rparr>,
    (HeishaMonSensorEntityDescription ''panasonic_heat_pump/main/Discharge_Temp'')
      \<lparr>heishamon_topic_id := Some ''TOP50''\<rparr>,
    (HeishaMonSensorEntityDescription ''panasonic_heat_pump/main/Inside_Pipe_Temp'')
      \<lparr>heishamon_topic_id := Some ''TOP51''\<rparr>,
    (HeishaMonSensorEntityDescription ''panasonic_heat_pump/main/Defrost_Temp'')
      \<lparr>heishamon_topic_id := Some ''TOP52''\<rparr>,
    (HeishaMonSensorEntityDescription ''panasonic_heat_pump/main/Eva_Outlet_Temp'')
      \<lparr>heishamon_topic_id := Some ''TOP53''\<rparr>,
    (HeishaMonSensorEntityDescription ''panasonic_heat_pump/main/Bypass_Outlet_Temp'')
      \<lparr>heishamon_topic_id := Some ''TOP54''\<rparr>,
    (HeishaMonSensorEntityDescription ''panasonic_heat_pump/main/Ipm_Temp'')
      \<lparr>heishamon_topic_id := Some ''TOP55''\<rparr>,
    (HeishaMonSensorEntityDescription ''panasonic_heat_pump/main/Z1_Temp'')
      \<lparr>heishamon_topic_id := Some ''TOP56''\<rparr>,
    (HeishaMonSensorEntityDescription ''panasonic_heat_pump/main/Z2_Temp'')
      \<lparr>heishamon_topic_id := Some ''TOP57''\<rparr>,
    (HeishaMonSensorEntityDescription ''panasonic_heat_pump/main/Fan1_Motor_Speed'')
      \<lparr>heishamon_topic_id := Some ''TOP62''\<rparr>,
    (HeishaMonSensorEntityDescription ''panasonic_heat_pump/main/Fan2_Motor_Speed'')
      \<lparr>heishamon_topic_id := Some ''TOP63''\<rparr>,
    (HeishaMonSensorEntityDescription ''panasonic_heat_pump/main/High_Pressure'')
      \<lparr>heishamon_topic_id := Some ''TOP64''\<rparr>,
    (HeishaMonSensorEntityDescription ''panasonic_heat_pump/main/Pump_Speed'')
      \<lparr>heishamon_topic_id := Some ''TOP65''\<rparr>,
    (HeishaMonSensorEntityDescription ''panasonic_heat_pump/main/Low_Pressure'')
      \<lparr>heishamon_topic_id := Some ''TOP66''\<rparr>,
    (HeishaMonSensorEntityDescription ''panasonic_heat_pump/main/Compressor_Current'')
      \<lparr>heishamon_topic_id := Some ''TOP67''\<rparr>,
    (HeishaMonSensorEntityDescription ''panasonic_heat_pump/main/Heat_Pump_Model'')
      \<lparr>heishamon_topic_id := Some ''TOP92'',
       state := Some Ref_read_heatpump_model,
       on_receive := Some Ref_update_device_model\<rparr>,
    (HeishaMonSensorEntityDescription ''panasonic_heat_pump/stats'')
      \<lparr>heishamon_topic_id := Some ''STAT1_rssi'',
       state := Some (Partial_read_stats_json ''wifi''),
       device := HEISHAMON\<rparr>,
    (HeishaMonSensorEntityDescription ''panasonic_heat_pump/stats'')
      \<lparr>heishamon_topic_id := Some ''STAT1_uptime'',
       state := Some Lambda_uptime,
       device := HEISHAMON\<rparr>,
    (HeishaMonSensorEntityDescription ''panasonic_heat_pump/stats'')
      \<lparr>heishamon_topic_id := Some ''STAT1_total_reads'',
       state := Some (Partial_read_stats_json ''total reads''),
       device := HEISHAMON\<rparr>,
    (HeishaMonSensorEntityDescription ''panasonic_heat_pump/stats'')
      \<lparr>heishamon_topic_id := Some ''STAT1_good_reads'',
       state := Some (Partial_read_stats_json ''good reads''),
       device := HEISHAMON\<rparr>,
    (HeishaMonSensorEntityDescription ''panasonic_heat_pump/stats'')
      \<lparr>heishamon_topic_id := Some ''STAT1_badcrc_reads'',
       state := Some (Partial_read_stats_json ''bad crc reads''),
       device := HEISHAMON\<rparr>,
    (HeishaMonSensorEntityDescription ''panasonic_heat_pump/stats'')
      \<lparr>heishamon_topic_id := Some ''STAT1_badheader_reads'',
       state := Some (Partial_read_stats_json ''bad header reads''),
       device := HEISHAMON\<rparr>,
    (HeishaMonSensorEntityDescription ''panasonic_heat_pump/stats'')
      \<lparr>heishamon_topic_id := Some ''STAT1_tooshort_reads'',
       state := Some (Partial_read_stats_json ''too short reads''),
       device := HEISHAMON\<rparr>,
    (HeishaMonSensorEntityDescription ''panasonic_heat_pump/stats'')
      \<lparr>heishamon_topic_id := Some ''STAT1_toolong_reads'',
       state := Some (Partial_read_stats_json ''too long reads''),
       device := HEISHAMON\<rparr>,
    (HeishaMonSensorEntityDescription ''panasonic_heat_pump/stats'')
      \<lparr>heishamon_topic_id := Some ''STAT1_timeout_reads'',
       state := Some (Partial_read_stats_json ''timeout reads''),
       device := HEISHAMON\<rparr>,
    (HeishaMonSensorEntityDescription ''panasonic_heat_pump/stats'')
      \<lparr>heishamon_topic_id := Some ''STAT1_voltage'',
       state := Some (Partial_read_stats_json ''voltage''),
       device := HEISHAMON\<rparr>,
    (HeishaMonSensorEntityDescription ''panasonic_heat_pump/stats'')
      \<lparr>heishamon_topic_id := Some ''STAT1_freememory'',
       state := Some (Partial_read_stats_json ''free memory''),
       device := HEISHAMON\<rparr>,
    (HeishaMonSensorEntityDescription ''panasonic_heat_pump/stats'')
      \<lparr>heishamon_topic_id := Some ''STAT1_freeheap'',
       state := Some (Partial_read_stats_json ''free heap''),
       device := HEISHAMON\<rparr>,
    (HeishaMonSensorEntityDescription ''panasonic_heat_pump/stats'')
      \<lparr>heishamon_topic_id := Some ''STAT1-mqttreconnects'',
       state := Some (Partial_read_stats_json ''mqtt reconnects''),
       device := HEISHAMON\<rparr>]"


text \<open>The decode functions of the registry: the \<^verbatim>\<open>state\<close> entries of all five tables.\<close>

definition decode_functions :: "callable list" where
  "decode_functions =
     List.map_filter state NUMBERS @ List.map_filter state SELECTS
     @ List.map_filter state MQTT_SWITCHES @ List.map_filter state BINARY_SENSORS
     @ List.map_filter state SENSORS"

text \<open>
  All descriptors of the registry, each as its topic identifier and its key, in the order
  of the tables above; and the three keys that more than one descriptor has.
\<close>

definition topic_and_key :: "'a HeishaMonEntityDescription_scheme \<Rightarrow> string option \<times> string" where
  "topic_and_key d = (heishamon_topic_id d, key d)"

definition registry :: "(string option \<times> string) list" where
  "registry =
     map topic_and_key NUMBERS @ map topic_and_key SELECTS
     @ map topic_and_key MQTT_SWITCHES @ map topic_and_key BINARY_SENSORS
     @ map topic_and_key SENSORS"

definition shared_keys :: "string list" where
  "shared_keys =
     [''panasonic_heat_pump/main/DHW_Target_Temp'',
      ''panasonic_heat_pump/main/Operating_Mode_State'',
      ''panasonic_heat_pump/stats'']"

subsection \<open>Sample payloads\<close>

text \<open>
  The concrete evaluations below need an environment. \<open>example_env\<close> knows what
  \<^verbatim>\<open>json.loads\<close> returns on five documents: four statistics objects and the empty array.
  Every other string it is applied to below is not JSON, and is answered by
  \<^verbatim>\<open>JSONDecodeError\<close>. No evaluation below converts a string to a float or looks a model up.
\<close>

definition stats_wifi_42 :: string where
  \<open>stats_wifi_42 = ''{"wifi": 42}''\<close>

definition stats_wifi_0 :: string where
  \<open>stats_wifi_0 = ''{"wifi": 0}''\<close>

definition stats_uptime_wifi :: string where
  \<open>stats_uptime_wifi = ''{"uptime": 5000, "wifi": 10}''\<close>

definition stats_wifi_list :: string where
  \<open>stats_wifi_list = ''{"wifi": [1]}''\<close>

definition example_documents :: "(string \<times> pyval) list" where
  "example_documents =
     [(stats_wifi_42, PDict [(''wifi'', PInt 42)]),
      (stats_wifi_0, PDict [(''wifi'', PInt 0)]),
      (stats_uptime_wifi, PDict [(''uptime'', PInt 5000), (''wifi'', PInt 10)]),
      (stats_wifi_list, PDict [(''wifi'', PList [PInt 1])]),
      (''[]'', PList [])]"

definition example_env :: environment where
  "example_env =
     \<lparr>json_loads = (\<lambda>doc. case map_of example_documents doc of
                               Some v \<Rightarrow> Inr v
                             | None \<Rightarrow> Inl JSONDecodeError),
      float_of_str = (\<lambda>s. Inl ValueError),
      HEATPUMP_MODELS = Map.empty\<rparr>"

section \<open>Properties\<close>

subsection \<open>Unfolding lemmas\<close>

lemmas table_defs =
  NUMBERS_def SELECTS_def MQTT_SWITCHES_def BINARY_SENSORS_def SENSORS_def
  HeishaMonNumberEntityDescription_def HeishaMonSelectEntityDescription_def
  HeishaMonSwitchEntityDescription_def HeishaMonBinarySensorEntityDescription_def
  HeishaMonSensorEntityDescription_def

lemmas example_defs =
  example_env_def example_documents_def stats_wifi_42_def stats_wifi_0_def stats_uptime_wifi_def
  stats_wifi_list_def

lemmas py_int_defs =
  py_int_def strip_def whitespace_def digit_of_def decimal_def max_str_digits_def

lemma decode_functions_list:
  "decode_functions =
     [Builtin_int, Ref_read_quiet_mode, Ref_read_operating_mode_state,
      Ref_bit_to_bool, Ref_bit_to_bool, Ref_bit_to_bool, Ref_bit_to_bool,
      Ref_bit_to_bool, Ref_bit_to_bool, Ref_bit_to_bool, Ref_bit_to_bool,
      Ref_bit_to_bool, Ref_bit_to_bool,
      Ref_read_operating_mode_state, Ref_read_power_mode_time, Ref_read_threeway_valve,
      Ref_read_heatpump_model,
      Partial_read_stats_json ''wifi'', Lambda_uptime,
      Partial_read_stats_json ''total reads'', Partial_read_stats_json ''good reads'',
      Partial_read_stats_json ''bad crc reads'', Partial_read_stats_json ''bad header reads'',
      Partial_read_stats_json ''too short reads'', Partial_read_stats_json ''too long reads'',
      Partial_read_stats_json ''timeout reads'', Partial_read_stats_json ''voltage'',
      Partial_read_stats_json ''free memory'', Partial_read_stats_json ''free heap'',
      Partial_read_stats_json ''mqtt reconnects'']"
  unfolding decode_functions_def table_defs by (simp add: List.map_filter_simps)

lemma py_int_cases: "py_int p = Inl ValueError \<or> (\<exists>n. py_int p = Inr n)"
  by (simp add: py_int_def Let_def split: option.split)

lemma read_stats_json_load_error:
  "json_loads env p = Inl e \<Longrightarrow> read_stats_json env f p = Inl e"
  by (simp add: read_stats_json_def)

lemma read_stats_json_not_dict:
  "json_loads env p = Inr v \<Longrightarrow> \<forall>kvs. v \<noteq> PDict kvs
     \<Longrightarrow> read_stats_json env f p = Inl AttributeError"
  by (cases v) (simp_all add: read_stats_json_def)

lemma read_stats_json_absent:
  "json_loads env p = Inr (PDict kvs) \<Longrightarrow> map_of kvs f = None
     \<Longrightarrow> read_stats_json env f p = Inr None"
  by (simp add: read_stats_json_def)

lemma read_stats_json_falsy:
  "json_loads env p = Inr (PDict kvs) \<Longrightarrow> map_of kvs f = Some v \<Longrightarrow> \<not> truthy v
     \<Longrightarrow> read_stats_json env f p = Inr None"
  by (simp add: read_stats_json_def)

lemma read_stats_json_converted:
  "json_loads env p = Inr (PDict kvs) \<Longrightarrow> map_of kvs f = Some v \<Longrightarrow> truthy v
     \<Longrightarrow> py_float env v = Inr x \<Longrightarrow> read_stats_json env f p = Inr (Some x)"
  by (simp add: read_stats_json_def)

lemma read_stats_json_not_converted:
  "json_loads env p = Inr (PDict kvs) \<Longrightarrow> map_of kvs f = Some v \<Longrightarrow> truthy v
     \<Longrightarrow> py_float env v = Inl e \<Longrightarrow> read_stats_json env f p = Inl e"
  by (simp add: read_stats_json_def)

subsection \<open>Evaluating the rounding\<close>

lemma floor_log2_eq:
  assumes "2 powi e \<le> \<bar>x\<bar>" "\<bar>x\<bar> < 2 powi (e + 1)"
  shows "\<lfloor>log 2 \<bar>x\<bar>\<rfloor> = e"
proof -
  have pos: "0 < \<bar>x\<bar>" using assms(1) by (smt (verit) zero_less_power_int)
  have "2 powr (real_of_int e) \<le> \<bar>x\<bar>" using assms(1) by (simp add: powr_real_of_int')
  moreover have "\<bar>x\<bar> < 2 powr (real_of_int e + 1)"
    using assms(2) powr_real_of_int'[of 2 "e + 1"] by simp
  ultimately show ?thesis using pos by (simp add: floor_log_eq_powr_iff)
qed

lemma round_double_eval:
  assumes "2 powi e \<le> \<bar>x\<bar>" "\<bar>x\<bar> < 2 powi (e + 1)"
  shows "round_double x =
     (let ulp = 2 powi (max e (- 1022) - 52);
          y = of_int (round_half_even (x / ulp)) * ulp
      in if 2 ^ 1024 \<le> \<bar>y\<bar> then (if 0 < x then PosInf else NegInf) else Finite y)"
proof -
  have "x \<noteq> 0" using assms(1) by (smt (verit) zero_less_power_int abs_zero)
  then show ?thesis
    by (simp add: round_double_def floor_log2_eq[OF assms] Let_def)
qed

lemma round_double_42: "round_double 42 = Finite 42"
  by (subst round_double_eval[of 5]) (simp_all add: round_half_even_def Let_def)

lemma round_double_5000: "round_double 5000 = Finite 5000"
  by (subst round_double_eval[of 12]) (simp_all add: round_half_even_def Let_def)

lemma round_double_5: "round_double 5 = Finite 5"
  by (subst round_double_eval[of 2]) (simp_all add: round_half_even_def Let_def)

lemma round_double_3_halves: "round_double (3 / 2) = Finite (3 / 2)"
  by (subst round_double_eval[of 0]) (simp_all add: round_half_even_def Let_def)

lemma round_double_quarter: "round_double (1 / 4) = Finite (1 / 4)"
  by (subst round_double_eval[of "- 2"]) (simp_all add: round_half_even_def Let_def)

lemma round_double_smallest_ms: "round_double (2 powi (- 1074) / 1000) = Finite 0"
  by (subst round_double_eval[of "- 1084"]) (simp_all add: round_half_even_def Let_def)

lemma ms_to_secs_smallest: "ms_to_secs (Some (Finite (2 powi (- 1074)))) = Some (Finite 0)"
proof -
  have "float_truthy (Finite (2 powi (- 1074)))" by simp
  then have "ms_to_secs (Some (Finite (2 powi (- 1074))))
      = Some (float_div (Finite (2 powi (- 1074))) 1000)"
    unfolding ms_to_secs_def by (simp only: option.case if_True)
  also have "float_div (Finite (2 powi (- 1074))) 1000 = round_double (2 powi (- 1074) / 1000)"
    by (simp only: float_div.simps)
  also have "\<dots> = Finite 0" by (rule round_double_smallest_ms)
  finally show ?thesis .
qed

lemma round_double_above_2_53: "round_double (2 ^ 53 + 1) = Finite (2 ^ 53)"
  by (subst round_double_eval[of 53]) (simp_all add: round_half_even_def Let_def)

lemma round_double_largest: "round_double (2 ^ 1024 - 2 ^ 970 - 1) = Finite (2 ^ 1024 - 2 ^ 971)"
  by (subst round_double_eval[of 1023]) (simp_all add: round_half_even_def Let_def)

lemma round_double_overflow: "round_double (2 ^ 1024 - 2 ^ 970) = PosInf"
  by (subst round_double_eval[of 1023]) (simp_all add: round_half_even_def Let_def)

lemma round_half_even_of_int: "round_half_even (of_int k) = k"
  by (simp add: round_half_even_def)

lemma round_double_of_int_exact:
  assumes "n \<noteq> 0" "\<bar>n\<bar> \<le> 2 ^ 53"
  shows "round_double (real_of_int n) = Finite (real_of_int n)"
proof -
  define x where "x = real_of_int n"
  define e where "e = \<lfloor>log 2 \<bar>x\<bar>\<rfloor>"
  have x1: "1 \<le> \<bar>x\<bar>" using assms(1) by (simp add: x_def flip: of_int_abs)
  have x2: "\<bar>x\<bar> \<le> 2 ^ 53"
  proof -
    have "real_of_int \<bar>n\<bar> \<le> real_of_int (2 ^ 53)" using assms(2) by (rule of_int_le_iff[THEN iffD2])
    then show ?thesis by (simp add: x_def)
  qed
  have xpos: "0 < \<bar>x\<bar>" using x1 by linarith
  have br: "2 powr (real_of_int e) \<le> \<bar>x\<bar> \<and> \<bar>x\<bar> < 2 powr (real_of_int e + 1)"
    using floor_log_eq_powr_iff[of "\<bar>x\<bar>" 2 e] xpos by (simp add: e_def)
  have e0: "0 \<le> e"
    unfolding e_def using x1 by (simp add: zero_le_log_cancel_iff)
  have e53: "e \<le> 53"
  proof -
    have p53: "(2::real) powr 53 = 2 ^ 53" by simp
    from br x2 have "2 powr (real_of_int e) \<le> (2::real) ^ 53" by linarith
    then have "2 powr (real_of_int e) \<le> (2::real) powr 53" by (simp only: p53)
    then have "real_of_int e \<le> 53"
      using powr_le_cancel_iff[of 2 "real_of_int e" 53] by (simp only: one_less_numeral_iff semiring_norm)
    then show ?thesis by linarith
  qed
  have "\<exists>k. x / 2 powi (e - 52) = of_int k"
  proof (cases "e \<le> 52")
    case True
    then have "2 powi (e - 52) = 1 / (2::real) ^ nat (52 - e)"
      by (metis power_int_minus_divide minus_diff_eq power_int_def nat_0_le diff_ge_0_iff_ge of_nat_nat power_int_of_nat)
    then have "x / 2 powi (e - 52) = of_int (n * 2 ^ nat (52 - e))" by (simp add: x_def)
    then show ?thesis by blast
  next
    case False
    with e53 have e: "e = 53" by simp
    with br have "2 ^ 53 \<le> \<bar>x\<bar>" by (simp add: powr_realpow[symmetric])
    with x2 have "\<bar>x\<bar> = 2 ^ 53" by simp
    then have "x = 2 ^ 53 \<or> x = - (2 ^ 53)" by (simp add: abs_if split: if_splits)
    then have "x / 2 powi (e - 52) = of_int (2 ^ 52) \<or> x / 2 powi (e - 52) = of_int (- (2 ^ 52))"
      by (auto simp: e)
    then show ?thesis by blast
  qed
  then obtain k where k: "x / 2 powi (e - 52) = of_int k" by blast
  have ulp: "(2::real) powi (e - 52) \<noteq> 0" by simp
  have y: "of_int (round_half_even (x / 2 powi (e - 52))) * 2 powi (e - 52) = x"
  proof -
    have "of_int (round_half_even (x / 2 powi (e - 52))) = x / 2 powi (e - 52)"
      by (simp only: k round_half_even_of_int)
    then show ?thesis using ulp by simp
  qed
  have "max e (- 1022) = e" using e0 by simp
  moreover have "\<not> 2 ^ 1024 \<le> \<bar>x\<bar>" using x2 by simp
  moreover have "x \<noteq> 0" using xpos by simp
  ultimately show ?thesis
    unfolding x_def[symmetric] round_double_def e_def[symmetric] Let_def using y by simp
qed

subsection \<open>Which decode functions can raise\<close>

text \<open>
  C1, as the code has it. The module handles no exception, so a decode function raises
  exactly where the parser it calls raises. Every decode function of the registry falls in
  one of three groups.
  \<^item> \<^verbatim>\<open>bit_to_bool\<close>, \<^verbatim>\<open>read_quiet_mode\<close>, \<^verbatim>\<open>read_operating_mode_state\<close>, \<^verbatim>\<open>read_threeway_valve\<close>
    and \<^verbatim>\<open>read_heatpump_model\<close> return a value for every payload string.
  \<^item> \<^verbatim>\<open>read_power_mode_time\<close> and the builtin \<^verbatim>\<open>int\<close> (the decoder of \<^verbatim>\<open>SET11\<close>) return a value
    when \<^verbatim>\<open>int\<close> accepts the payload and raise \<^verbatim>\<open>ValueError\<close> when it does not.
  \<^item> A decoder built on \<^verbatim>\<open>read_stats_json\<close> returns a value when the payload is a JSON object
    in which its field is absent, or falsy, or truthy and accepted by \<^verbatim>\<open>float\<close>: null in the
    first two cases. It raises in the three other cases: the exception of \<^verbatim>\<open>json.loads\<close> for
    a payload that is not JSON, \<^verbatim>\<open>AttributeError\<close> for a JSON document that is not an object,
    and the exception of \<^verbatim>\<open>float\<close> for a truthy field that \<^verbatim>\<open>float\<close> rejects.
\<close>

theorem decode_functions_raise_only_when_parsing_fails:
  assumes "f \<in> set decode_functions"
  shows "(f \<in> {Ref_bit_to_bool, Ref_read_quiet_mode, Ref_read_operating_mode_state,
               Ref_read_threeway_valve, Ref_read_heatpump_model}
            \<and> (\<exists>v. call env f p = Inr v))
       \<or> (f \<in> {Ref_read_power_mode_time, Builtin_int}
            \<and> (case py_int p of
                  Inl e \<Rightarrow> call env f p = Inl ValueError
                | Inr n \<Rightarrow> \<exists>v. call env f p = Inr v))
       \<or> (\<exists>field. (f = Partial_read_stats_json field \<or> f = Lambda_uptime \<and> field = ''uptime'')
            \<and> (\<forall>e. json_loads env p = Inl e \<longrightarrow> call env f p = Inl e)
            \<and> (\<forall>v. json_loads env p = Inr v \<and> (\<forall>kvs. v \<noteq> PDict kvs)
                   \<longrightarrow> call env f p = Inl AttributeError)
            \<and> (\<forall>kvs. json_loads env p = Inr (PDict kvs) \<and> map_of kvs field = None
                   \<longrightarrow> call env f p = Inr PNone)
            \<and> (\<forall>kvs v. json_loads env p = Inr (PDict kvs) \<and> map_of kvs field = Some v
                     \<and> \<not> truthy v
                   \<longrightarrow> call env f p = Inr PNone)
            \<and> (\<forall>kvs v x. json_loads env p = Inr (PDict kvs) \<and> map_of kvs field = Some v
                     \<and> truthy v \<and> py_float env v = Inr x
                   \<longrightarrow> (\<exists>r. call env f p = Inr r))
            \<and> (\<forall>kvs v e. json_loads env p = Inr (PDict kvs) \<and> map_of kvs field = Some v
                     \<and> truthy v \<and> py_float env v = Inl e
                   \<longrightarrow> call env f p = Inl e))"
proof -
  have int_cases: "py_int p = Inl ValueError \<or> (\<exists>n. py_int p = Inr n)"
    by (rule py_int_cases)
  from assms consider
      "f \<in> {Ref_bit_to_bool, Ref_read_quiet_mode, Ref_read_operating_mode_state,
             Ref_read_threeway_valve, Ref_read_heatpump_model}"
    | "f \<in> {Ref_read_power_mode_time, Builtin_int}"
    | field where "f = Partial_read_stats_json field \<or> f = Lambda_uptime \<and> field = ''uptime''"
    by (auto simp: decode_functions_list)
  then show ?thesis
  proof cases
    case 1
    then have "\<exists>v. call env f p = Inr v" by auto
    with 1 show ?thesis by blast
  next
    case 2
    with int_cases have "case py_int p of
                  Inl e \<Rightarrow> call env f p = Inl ValueError
                | Inr n \<Rightarrow> \<exists>v. call env f p = Inr v"
      by (auto simp: read_power_mode_time_def)
    with 2 show ?thesis by blast
  next
    case 3
    have a: "\<forall>e. json_loads env p = Inl e \<longrightarrow> call env f p = Inl e"
      using 3 by (auto simp: read_stats_json_load_error)
    have b: "\<forall>v. json_loads env p = Inr v \<and> (\<forall>kvs. v \<noteq> PDict kvs)
                   \<longrightarrow> call env f p = Inl AttributeError"
      using 3 by (auto simp: read_stats_json_not_dict)
    have c: "\<forall>kvs. json_loads env p = Inr (PDict kvs) \<and> map_of kvs field = None
                   \<longrightarrow> call env f p = Inr PNone"
      using 3 by (auto simp: read_stats_json_absent optional_def ms_to_secs_def)
    have d: "\<forall>kvs v. json_loads env p = Inr (PDict kvs) \<and> map_of kvs field = Some v
                     \<and> \<not> truthy v
                   \<longrightarrow> call env f p = Inr PNone"
      using 3 by (auto simp: read_stats_json_falsy optional_def ms_to_secs_def)
    have e: "\<forall>kvs v x. json_loads env p = Inr (PDict kvs) \<and> map_of kvs field = Some v
                     \<and> truthy v \<and> py_float env v = Inr x
                   \<longrightarrow> (\<exists>r. call env f p = Inr r)"
      using 3 by (auto simp: read_stats_json_converted)
    have g: "\<forall>kvs v e. json_loads env p = Inr (PDict kvs) \<and> map_of kvs field = Some v
                     \<and> truthy v \<and> py_float env v = Inl e
                   \<longrightarrow> call env f p = Inl e"
      using 3 by (auto simp: read_stats_json_not_converted)
    from 3 a b c d e g show ?thesis by blast
  qed
qed

theorem decode_functions_raise_only_when_parsing_fails_witness:
  "Ref_bit_to_bool \<in> set decode_functions
   \<and> call example_env Ref_bit_to_bool ''2'' = Inr PNone
   \<and> Ref_read_power_mode_time \<in> set decode_functions
   \<and> call example_env Ref_read_power_mode_time ''2'' = Inr (PInt 60)
   \<and> call example_env Ref_read_power_mode_time ''two'' = Inl ValueError
   \<and> Partial_read_stats_json ''wifi'' \<in> set decode_functions
   \<and> json_loads example_env ''wifi'' = Inl JSONDecodeError
   \<and> call example_env (Partial_read_stats_json ''wifi'') ''wifi'' = Inl JSONDecodeError
   \<and> json_loads example_env ''[]'' = Inr (PList [])
   \<and> call example_env (Partial_read_stats_json ''wifi'') ''[]'' = Inl AttributeError
   \<and> json_loads example_env stats_wifi_42 = Inr (PDict [(''wifi'', PInt 42)])
   \<and> call example_env (Partial_read_stats_json ''wifi'') stats_wifi_42 = Inr (PFloat (Finite 42))
   \<and> call example_env (Partial_read_stats_json ''voltage'') stats_wifi_42 = Inr PNone
   \<and> json_loads example_env stats_wifi_0 = Inr (PDict [(''wifi'', PInt 0)])
   \<and> call example_env (Partial_read_stats_json ''wifi'') stats_wifi_0 = Inr PNone
   \<and> json_loads example_env stats_wifi_list = Inr (PDict [(''wifi'', PList [PInt 1])])
   \<and> call example_env (Partial_read_stats_json ''wifi'') stats_wifi_list = Inl TypeError
   \<and> Lambda_uptime \<in> set decode_functions
   \<and> call example_env Lambda_uptime stats_uptime_wifi = Inr (PFloat (Finite 5))"
  using decode_functions_raise_only_when_parsing_fails [of Ref_bit_to_bool example_env "''2''"]
    decode_functions_raise_only_when_parsing_fails [of Ref_read_power_mode_time example_env "''2''"]
    decode_functions_raise_only_when_parsing_fails [of Ref_read_power_mode_time example_env "''two''"]
    decode_functions_raise_only_when_parsing_fails
      [of "Partial_read_stats_json ''wifi''" example_env "''wifi''"]
    decode_functions_raise_only_when_parsing_fails
      [of "Partial_read_stats_json ''wifi''" example_env "''[]''"]
    decode_functions_raise_only_when_parsing_fails
      [of "Partial_read_stats_json ''wifi''" example_env stats_wifi_42]
    decode_functions_raise_only_when_parsing_fails
      [of "Partial_read_stats_json ''voltage''" example_env stats_wifi_42]
    decode_functions_raise_only_when_parsing_fails
      [of "Partial_read_stats_json ''wifi''" example_env stats_wifi_0]
    decode_functions_raise_only_when_parsing_fails
      [of "Partial_read_stats_json ''wifi''" example_env stats_wifi_list]
    decode_functions_raise_only_when_parsing_fails [of Lambda_uptime example_env stats_uptime_wifi]
  by (simp add: decode_functions_list bit_to_bool_def optional_def read_power_mode_time_def
        py_int_defs example_defs read_stats_json_def round_double_42 ms_to_secs_def
        round_double_5000 round_double_5)

text \<open>
  The payload \<^verbatim>\<open>"abc"\<close> on topic \<^verbatim>\<open>TOP17\<close>: \<^verbatim>\<open>read_power_mode_time\<close> is a decode function of the
  registry, and \<^verbatim>\<open>int("abc")\<close> raises \<^verbatim>\<open>ValueError\<close> through it.
\<close>

theorem read_power_mode_time_counterexample:
  "Ref_read_power_mode_time \<in> set decode_functions
   \<and> call example_env Ref_read_power_mode_time ''abc'' = Inl ValueError"
  by (simp add: decode_functions_list read_power_mode_time_def py_int_defs)

subsection \<open>Operating mode\<close>

text \<open>
  C2. For each of the five supported codes, encoding the decoded mode name gives the code
  back. For every other string, decoding gives the text \<^verbatim>\<open>Unknown operating mode value: \<close>
  followed by the string, and encoding that text gives null.
\<close>

theorem operating_mode_round_trip:
  "(code \<in> {''0'', ''2'', ''3'', ''4'', ''6''}
      \<longrightarrow> operating_mode_to_state (read_operating_mode_state code) = Some code)
   \<and> (code \<notin> {''0'', ''2'', ''3'', ''4'', ''6''}
      \<longrightarrow> read_operating_mode_state code = ''Unknown operating mode value: '' @ code
        \<and> operating_mode_to_state (read_operating_mode_state code) = None)"
  by (auto simp: operating_mode_to_state_def read_operating_mode_state_def
        OPERATING_MODE_TO_STRING_def)

theorem operating_mode_round_trip_witness:
  "''3'' \<in> {''0'', ''2'', ''3'', ''4'', ''6''}
   \<and> read_operating_mode_state ''3'' = ''DHW only''
   \<and> operating_mode_to_state (read_operating_mode_state ''3'') = Some ''3''
   \<and> ''5'' \<notin> {''0'', ''2'', ''3'', ''4'', ''6''}
   \<and> read_operating_mode_state ''5'' = ''Unknown operating mode value: 5''
   \<and> operating_mode_to_state (read_operating_mode_state ''5'') = None"
  using operating_mode_round_trip [of "''3''"] operating_mode_round_trip [of "''5''"]
  by (simp add: read_operating_mode_state_def OPERATING_MODE_TO_STRING_def)

subsection \<open>Quiet mode\<close>

text \<open>
  C3, as the code has it. For every raw code among \<^verbatim>\<open>"0"\<close> to \<^verbatim>\<open>"4"\<close>, encoding the decoded
  value returns the integer \<^verbatim>\<open>int(code)\<close>, one of 0 to 4, and not the string. Decoding maps
  \<^verbatim>\<open>"4"\<close> to \<^verbatim>\<open>"Scheduled"\<close> and \<^verbatim>\<open>"0"\<close> to \<^verbatim>\<open>"Off"\<close>, with capitals, and leaves \<^verbatim>\<open>"1"\<close>, \<^verbatim>\<open>"2"\<close> and
  \<^verbatim>\<open>"3"\<close> as they are.
\<close>

theorem quiet_mode_round_trip:
  assumes "code \<in> {''0'', ''1'', ''2'', ''3'', ''4''}"
  shows "write_quiet_mode (read_quiet_mode code) = py_int code
       \<and> py_int code \<in> {Inr 0, Inr 1, Inr 2, Inr 3, Inr 4}
       \<and> read_quiet_mode code
           = (if code = ''4'' then ''Scheduled'' else if code = ''0'' then ''Off'' else code)"
  using assms by (auto simp: write_quiet_mode_def read_quiet_mode_def py_int_defs)

theorem quiet_mode_round_trip_witness:
  "''0'' \<in> {''0'', ''1'', ''2'', ''3'', ''4''}
   \<and> read_quiet_mode ''0'' = ''Off'' \<and> write_quiet_mode (read_quiet_mode ''0'') = Inr 0
   \<and> read_quiet_mode ''2'' = ''2'' \<and> write_quiet_mode (read_quiet_mode ''2'') = Inr 2
   \<and> read_quiet_mode ''4'' = ''Scheduled'' \<and> write_quiet_mode (read_quiet_mode ''4'') = Inr 4"
  using quiet_mode_round_trip [of "''0''"] quiet_mode_round_trip [of "''2''"]
    quiet_mode_round_trip [of "''4''"]
  by (simp add: py_int_defs write_quiet_mode_def read_quiet_mode_def)

text \<open>
  The code \<^verbatim>\<open>"0"\<close>: the round trip returns the integer 0, which is not the string \<^verbatim>\<open>"0"\<close>, and
  the labels are not the lower-case ones.
\<close>

theorem quiet_mode_round_trip_counterexample:
  "write_quiet_mode (read_quiet_mode ''0'') = Inr 0
   \<and> call example_env Ref_write_quiet_mode (read_quiet_mode ''0'') \<noteq> Inr (PStr ''0'')
   \<and> read_quiet_mode ''0'' \<noteq> ''off''
   \<and> read_quiet_mode ''4'' \<noteq> ''scheduled''"
  by (simp add: write_quiet_mode_def read_quiet_mode_def)

subsection \<open>Statistics fields\<close>

text \<open>
  C4, as the code has it. For every field name and every JSON document that is an object:
  an absent field gives null; a field whose value is falsy, zero in particular, gives null;
  a non-zero integer gives the double nearest to it, which is the integer itself up to
  \<open>2 ^ 53\<close> in magnitude, as long as that double is finite; a non-zero float gives itself.
\<close>

theorem read_stats_json_on_object:
  assumes "json_loads env json_doc = Inr (PDict kvs)"
  shows "(map_of kvs field_name = None
            \<longrightarrow> read_stats_json env field_name json_doc = Inr None)
       \<and> (\<forall>v. map_of kvs field_name = Some v \<and> \<not> truthy v
            \<longrightarrow> read_stats_json env field_name json_doc = Inr None)
       \<and> (\<forall>n y. map_of kvs field_name = Some (PInt n) \<and> n \<noteq> 0
              \<and> round_double (real_of_int n) = Finite y
            \<longrightarrow> read_stats_json env field_name json_doc = Inr (Some (Finite y)))
       \<and> (\<forall>n. map_of kvs field_name = Some (PInt n) \<and> n \<noteq> 0 \<and> \<bar>n\<bar> \<le> 2 ^ 53
            \<longrightarrow> read_stats_json env field_name json_doc = Inr (Some (Finite (real_of_int n))))
       \<and> (\<forall>x. map_of kvs field_name = Some (PFloat x) \<and> float_truthy x
            \<longrightarrow> read_stats_json env field_name json_doc = Inr (Some x))"
  using assms by (auto simp: read_stats_json_def round_double_of_int_exact)

theorem read_stats_json_on_object_witness:
  "json_loads example_env stats_wifi_42 = Inr (PDict [(''wifi'', PInt 42)])
   \<and> round_double (real_of_int 42) = Finite 42
   \<and> read_stats_json example_env ''wifi'' stats_wifi_42 = Inr (Some (Finite 42))
   \<and> read_stats_json example_env ''uptime'' stats_wifi_42 = Inr None
   \<and> json_loads example_env stats_wifi_0 = Inr (PDict [(''wifi'', PInt 0)])
   \<and> read_stats_json example_env ''wifi'' stats_wifi_0 = Inr None"
  using read_stats_json_on_object [of example_env stats_wifi_42 "[(''wifi'', PInt 42)]" "''wifi''"]
    read_stats_json_on_object [of example_env stats_wifi_42 "[(''wifi'', PInt 42)]" "''uptime''"]
    read_stats_json_on_object [of example_env stats_wifi_0 "[(''wifi'', PInt 0)]" "''wifi''"]
  by (simp add: example_defs round_double_42)

text \<open>
  The JSON document \<^verbatim>\<open>[]\<close>: the field is absent, and the lookup raises \<^verbatim>\<open>AttributeError\<close>
  instead of giving null.
\<close>

theorem read_stats_json_not_object_counterexample:
  "json_loads example_env ''[]'' = Inr (PList [])
   \<and> read_stats_json example_env ''wifi'' ''[]'' = Inl AttributeError"
  by (simp add: read_stats_json_def example_defs)

subsection \<open>Bit to boolean\<close>

text \<open>
  C5. \<^verbatim>\<open>bit_to_bool("1")\<close> is true, \<^verbatim>\<open>bit_to_bool("0")\<close> is false, and every payload other
  than these two decodes to null.
\<close>

theorem bit_to_bool_spec:
  "bit_to_bool ''1'' = Some True \<and> bit_to_bool ''0'' = Some False
   \<and> (\<forall>p. p \<notin> {''0'', ''1''} \<longrightarrow> bit_to_bool p = None)"
  by (simp add: bit_to_bool_def)

theorem bit_to_bool_spec_witness:
  "''on'' \<notin> {''0'', ''1''} \<and> bit_to_bool ''on'' = None"
  using bit_to_bool_spec by simp

subsection \<open>Three-way valve\<close>

text \<open>
  C6, as the code has it. \<^verbatim>\<open>read_threeway_valve\<close> maps \<^verbatim>\<open>"0"\<close> to \<^verbatim>\<open>"Room"\<close> and \<^verbatim>\<open>"1"\<close> to
  \<^verbatim>\<open>"Tank"\<close>, with capitals, and returns null for every other string without raising. The
  log line written on that path is not part of the embedding.
\<close>

theorem read_threeway_valve_spec:
  "read_threeway_valve ''0'' = Some ''Room'' \<and> read_threeway_valve ''1'' = Some ''Tank''
   \<and> (\<forall>v. v \<notin> {''0'', ''1''}
        \<longrightarrow> read_threeway_valve v = None \<and> call env Ref_read_threeway_valve v = Inr PNone)"
  by (simp add: read_threeway_valve_def optional_def)

theorem read_threeway_valve_spec_witness:
  "''2'' \<notin> {''0'', ''1''} \<and> read_threeway_valve ''2'' = None
   \<and> call example_env Ref_read_threeway_valve ''2'' = Inr PNone"
  using read_threeway_valve_spec [of example_env] by (simp add: optional_def)

text \<open>The payloads \<^verbatim>\<open>"0"\<close> and \<^verbatim>\<open>"1"\<close>: the results are not the lower-case names.\<close>

theorem read_threeway_valve_counterexample:
  "read_threeway_valve ''0'' \<noteq> Some ''room'' \<and> read_threeway_valve ''1'' \<noteq> Some ''tank''"
  by (simp add: read_threeway_valve_def)

subsection \<open>Milliseconds to seconds\<close>

text \<open>
  C7, as the code has it. \<^verbatim>\<open>ms_to_secs\<close> returns null for null and for zero. Every other
  finite number is divided by 1000 as doubles are: the result is the double nearest to the
  quotient, so that 1500 gives 1.5 and the smallest positive double gives 0.0. The
  infinities and the value that is not a number are returned as they are.
\<close>

theorem ms_to_secs_spec:
  "ms_to_secs None = None
   \<and> ms_to_secs (Some (Finite 1500)) = Some (Finite 1.5)
   \<and> ms_to_secs (Some (Finite 0)) = None
   \<and> (\<forall>x. x \<noteq> 0 \<longrightarrow> ms_to_secs (Some (Finite x)) = Some (round_double (x / 1000)))
   \<and> ms_to_secs (Some (Finite (2 powi (- 1074)))) = Some (Finite 0)
   \<and> ms_to_secs (Some PosInf) = Some PosInf \<and> ms_to_secs (Some NegInf) = Some NegInf
   \<and> ms_to_secs (Some NaN) = Some NaN"
  using ms_to_secs_smallest
  by (simp add: ms_to_secs_def round_double_3_halves)

theorem ms_to_secs_spec_witness:
  "(250::real) \<noteq> 0 \<and> round_double (250 / 1000) = Finite 0.25
   \<and> ms_to_secs (Some (Finite 250)) = Some (Finite 0.25)"
  using ms_to_secs_spec round_double_quarter by simp

text \<open>The value 0, which is numeric and not null: the result is null, not 0 divided by 1000.\<close>

theorem ms_to_secs_zero_counterexample:
  "ms_to_secs (Some (Finite 0)) = None
   \<and> float_div (Finite 0) 1000 = Finite 0
   \<and> ms_to_secs (Some (Finite 0)) \<noteq> Some (float_div (Finite 0) 1000)"
  by (simp add: ms_to_secs_def round_double_def)

subsection \<open>Uniqueness in the tables\<close>

text \<open>
  C8, as the code has it. The topic identifiers are pairwise distinct in each of the five
  tables, and over the whole registry. The keys are pairwise distinct in \<^verbatim>\<open>NUMBERS\<close>,
  \<^verbatim>\<open>SELECTS\<close>, \<^verbatim>\<open>MQTT_SWITCHES\<close> and \<^verbatim>\<open>BINARY_SENSORS\<close>. Over the whole registry three keys,
  and no other, belong to more than one descriptor: \<^verbatim>\<open>panasonic_heat_pump/stats\<close> to the
  thirteen descriptors of the bridge device in \<^verbatim>\<open>SENSORS\<close>,
  \<^verbatim>\<open>panasonic_heat_pump/main/DHW_Target_Temp\<close> to \<^verbatim>\<open>SET11\<close> and \<^verbatim>\<open>TOP9\<close>, and
  \<^verbatim>\<open>panasonic_heat_pump/main/Operating_Mode_State\<close> to \<^verbatim>\<open>SET9\<close> and \<^verbatim>\<open>TOP4\<close>.
\<close>

theorem topic_ids_distinct_keys_distinct_except_shared:
  "distinct (map heishamon_topic_id NUMBERS) \<and> distinct (map heishamon_topic_id SELECTS)
   \<and> distinct (map heishamon_topic_id MQTT_SWITCHES)
   \<and> distinct (map heishamon_topic_id BINARY_SENSORS)
   \<and> distinct (map heishamon_topic_id SENSORS)
   \<and> distinct (map fst registry)
   \<and> distinct (map key NUMBERS) \<and> distinct (map key SELECTS)
   \<and> distinct (map key MQTT_SWITCHES) \<and> distinct (map key BINARY_SENSORS)
   \<and> distinct (map snd (filter (\<lambda>(t, k). k \<notin> set shared_keys) registry))
   \<and> map fst (filter (\<lambda>(t, k). k = ''panasonic_heat_pump/main/DHW_Target_Temp'') registry)
       = [Some ''SET11'', Some ''TOP9'']
   \<and> map fst (filter (\<lambda>(t, k). k = ''panasonic_heat_pump/main/Operating_Mode_State'') registry)
       = [Some ''SET9'', Some ''TOP4'']
   \<and> map fst (filter (\<lambda>(t, k). k = ''panasonic_heat_pump/stats'') registry)
       = [Some ''STAT1_rssi'', Some ''STAT1_uptime'', Some ''STAT1_total_reads'',
          Some ''STAT1_good_reads'', Some ''STAT1_badcrc_reads'', Some ''STAT1_badheader_reads'',
          Some ''STAT1_tooshort_reads'', Some ''STAT1_toolong_reads'',
          Some ''STAT1_timeout_reads'', Some ''STAT1_voltage'', Some ''STAT1_freememory'',
          Some ''STAT1_freeheap'', Some ''STAT1-mqttreconnects'']
   \<and> map device (filter (\<lambda>d. key d = ''panasonic_heat_pump/stats'') SENSORS)
       = replicate 13 HEISHAMON"
  by (simp add: table_defs registry_def topic_and_key_def shared_keys_def numeral_eq_Suc)

text \<open>The table \<^verbatim>\<open>SENSORS\<close>: its keys are not pairwise distinct.\<close>

theorem sensor_keys_shared_counterexample:
  "\<not> distinct (map key SENSORS)"
  by (simp add: SENSORS_def HeishaMonSensorEntityDescription_def)

subsection \<open>Switches\<close>

text \<open>
  C10. Every descriptor of \<^verbatim>\<open>MQTT_SWITCHES\<close> decodes with \<^verbatim>\<open>bit_to_bool\<close> and keeps the default
  payloads \<^verbatim>\<open>"1"\<close> and \<^verbatim>\<open>"0"\<close>, so that decoding its on payload gives true and decoding its off
  payload gives false.
\<close>

theorem switches_decode_own_payloads:
  "\<forall>d \<in> set MQTT_SWITCHES.
     state d = Some Ref_bit_to_bool \<and> payload_on d = ''1'' \<and> payload_off d = ''0''
     \<and> call env Ref_bit_to_bool (payload_on d) = Inr (PBool True)
     \<and> call env Ref_bit_to_bool (payload_off d) = Inr (PBool False)"
  by (simp add: MQTT_SWITCHES_def HeishaMonSwitchEntityDescription_def bit_to_bool_def
        optional_def)

theorem switches_decode_own_payloads_witness:
  "hd MQTT_SWITCHES \<in> set MQTT_SWITCHES
   \<and> heishamon_topic_id (hd MQTT_SWITCHES) = Some ''TOP19''
   \<and> state (hd MQTT_SWITCHES) = Some Ref_bit_to_bool
   \<and> call example_env Ref_bit_to_bool (payload_on (hd MQTT_SWITCHES)) = Inr (PBool True)
   \<and> call example_env Ref_bit_to_bool (payload_off (hd MQTT_SWITCHES)) = Inr (PBool False)"
  using switches_decode_own_payloads [of example_env, THEN bspec, of "hd MQTT_SWITCHES"]
  by (simp add: MQTT_SWITCHES_def HeishaMonSwitchEntityDescription_def)

end
